theory Spec2Isabelle
  imports Main "HOL-Library.Word" "HOL-Library.Sublist"
begin

section \<open>Value types of the exception templates\<close>

text \<open>
  The header instantiates its templates for \<^verbatim>\<open>int\<close> and \<^verbatim>\<open>double\<close>
  (\<^verbatim>\<open>extern template class BoundsException<int>\<close>). A C \<^verbatim>\<open>int\<close> is a 32-bit
  two's complement word, read with \<open>sint\<close>. A \<^verbatim>\<open>double\<close> is only ever copied by
  this file, never computed with, so it is carried as its 64-bit pattern.
\<close>

type_synonym c_int = "32 word"

type_synonym double = "64 word"

definition digit_char :: "nat \<Rightarrow> char" where
  "digit_char d = ''0123456789'' ! d"

function string_of_nat :: "nat \<Rightarrow> string" where
  "string_of_nat n = (if n < 10 then [digit_char n]
     else string_of_nat (n div 10) @ [digit_char (n mod 10)])"
  by pat_completeness auto
termination
  by (relation "measure id") auto

declare string_of_nat.simps [simp del]

text \<open>
  Modelled from the spec: the decimal text written for \<^verbatim>\<open><value>\<close>, \<^verbatim>\<open><min>\<close>,
  \<^verbatim>\<open><rows>\<close> and so on in the message formats of an integer payload (the spec's
  example is \<^verbatim>\<open>5 is not in range [0, 3]\<close>); the constructor bodies that render the
  numbers are not in the header.
\<close>

definition string_of_int :: "int \<Rightarrow> string" where
  "string_of_int i =
     (if i < 0 then CHR ''-'' # string_of_nat (nat (- i)) else string_of_nat (nat i))"

text \<open>
  What the templates need from their parameter \<^verbatim>\<open>ValueType\<close>: the text of a value,
  \<^verbatim>\<open>std::numeric_limits<ValueType>::max()\<close> and
  \<^verbatim>\<open>std::numeric_limits<ValueType>::lowest()\<close>. They belong to the C++ library, not
  to this repository, and are taken as a parameter of every templated definition.
\<close>

record 'a ValueType =
  to_string :: "'a \<Rightarrow> string"
  limits_max :: 'a
  limits_lowest :: 'a

definition int_type :: "c_int ValueType" where
  "int_type = \<lparr>to_string = (\<lambda>v. string_of_int (sint v)),
     limits_max = 2147483647, limits_lowest = - 2147483648\<rparr>"

section \<open>Location token\<close>

text \<open>
  \<^verbatim>\<open>#define OL_STRINGIFY_FILE_AND_LINE "(" __FILE__ ": " OL_STRINGIFY_EXPANSION(__LINE__) ")"\<close>
  with \<^verbatim>\<open>__FILE__\<close> and \<^verbatim>\<open>__LINE__\<close> of the place of use as arguments.
\<close>

definition OL_STRINGIFY_FILE_AND_LINE :: "string \<Rightarrow> nat \<Rightarrow> string" where
  "OL_STRINGIFY_FILE_AND_LINE file line = ''('' @ file @ '': '' @ string_of_nat line @ '')''"

section \<open>Message formatting\<close>

text \<open>
  Modelled from the spec: the tail every message ends with,
  \<^verbatim>\<open><custom message> <calling routine> <location>\<close>, appended to the text built so
  far. The out-of-line constructors that do this are not in the header. The three
  arguments are C strings; a null pointer, which the header allows for \<^verbatim>\<open>func_info\<close>
  and \<^verbatim>\<open>custom_message\<close>, is not a string and is not covered, the spec giving no
  format for it.
\<close>

definition append_debug_info :: "string \<Rightarrow> string \<Rightarrow> string \<Rightarrow> string \<Rightarrow> string" where
  "append_debug_info line_info func_info custom_message message =
     message @ custom_message @ '' '' @ func_info @ '' '' @ line_info"

section \<open>RuntimeException\<close>

record RuntimeException =
  runtime_message :: string

definition RuntimeException_kName :: string where
  "RuntimeException_kName = ''RuntimeException''"

text \<open>
  Modelled from the spec: the body of
  \<^verbatim>\<open>RuntimeException(line_info, func_info, custom_message)\<close>, declared in the header
  and defined elsewhere. Format (section 4.3):
  \<^verbatim>\<open>"RuntimeError: <custom message> <calling routine> <location>"\<close>, the kind name
  being the class's \<^verbatim>\<open>kName\<close>.
\<close>

definition RuntimeException :: "string \<Rightarrow> string \<Rightarrow> string \<Rightarrow> RuntimeException" where
  "RuntimeException line_info func_info custom_message =
     \<lparr>runtime_message =
        append_debug_info line_info func_info custom_message (RuntimeException_kName @ '': '')\<rparr>"

definition RuntimeException_what :: "RuntimeException \<Rightarrow> string" where
  "RuntimeException_what e = runtime_message e"

section \<open>BoundsException and its two subclasses\<close>

record 'a BoundsException =
  bounds_value :: 'a
  bounds_min :: 'a
  bounds_max :: 'a
  bounds_message :: string

definition BoundsException_kName :: string where
  "BoundsException_kName = ''BoundsException''"

definition bounds_description :: "'a ValueType \<Rightarrow> 'a \<Rightarrow> 'a \<Rightarrow> 'a \<Rightarrow> string" where
  "bounds_description T v mn mx =
     to_string T v @ '' is not in range ['' @ to_string T mn @ '', '' @ to_string T mx @ ''].''"

text \<open>
  Modelled from the spec: the body of the protected constructor
  \<^verbatim>\<open>BoundsException(name_in, line_info, func_info, custom_message, value_in, min_in, max_in)\<close>,
  declared in the header and defined elsewhere. Section 4.4: it stores the three payload
  fields verbatim and formats
  \<^verbatim>\<open>"<kind>: <value> is not in range [<min>, <max>]. <custom message> <calling routine> <location>"\<close>,
  the kind being \<^verbatim>\<open>name_in\<close>. The header's comment on \<^verbatim>\<open>what()\<close> draws the
  description and the tail on two lines; the separator taken here is the space of the
  spec's format.
\<close>

definition BoundsException_protected ::
  "'a ValueType \<Rightarrow> string \<Rightarrow> string \<Rightarrow> string \<Rightarrow> string \<Rightarrow> 'a \<Rightarrow> 'a \<Rightarrow> 'a \<Rightarrow> 'a BoundsException" where
  "BoundsException_protected T name_in line_info func_info custom_message value_in min_in max_in =
     \<lparr>bounds_value = value_in, bounds_min = min_in, bounds_max = max_in,
      bounds_message =
        append_debug_info line_info func_info custom_message
          (name_in @ '': '' @ bounds_description T value_in min_in max_in @ '' '')\<rparr>"

text \<open>The public constructor delegates with the class's own \<^verbatim>\<open>kName\<close>.\<close>

definition BoundsException ::
  "'a ValueType \<Rightarrow> string \<Rightarrow> string \<Rightarrow> string \<Rightarrow> 'a \<Rightarrow> 'a \<Rightarrow> 'a \<Rightarrow> 'a BoundsException" where
  "BoundsException T line_info func_info custom_message value_in min_in max_in =
     BoundsException_protected T BoundsException_kName line_info func_info custom_message
       value_in min_in max_in"

definition BoundsException_what :: "'a BoundsException \<Rightarrow> string" where
  "BoundsException_what e = bounds_message e"

definition BoundsException_value :: "'a BoundsException \<Rightarrow> 'a" where
  "BoundsException_value e = bounds_value e"

definition BoundsException_max :: "'a BoundsException \<Rightarrow> 'a" where
  "BoundsException_max e = bounds_max e"

definition BoundsException_min :: "'a BoundsException \<Rightarrow> 'a" where
  "BoundsException_min e = bounds_min e"

text \<open>
  \<^verbatim>\<open>class LowerBoundException : public BoundsException<ValueType>\<close> adds no member:
  an object is its base subobject, and the selector is the conversion to the base class
  through which the inherited \<^verbatim>\<open>what\<close>, \<^verbatim>\<open>value\<close>, \<^verbatim>\<open>min\<close> and \<^verbatim>\<open>max\<close> are
  reached. The same holds for \<^verbatim>\<open>UpperBoundException\<close>.
\<close>

datatype 'a LowerBoundException =
  LowerBoundException_object (LowerBoundException_base: "'a BoundsException")

datatype 'a UpperBoundException =
  UpperBoundException_object (UpperBoundException_base: "'a BoundsException")

definition LowerBoundException_kName :: string where
  "LowerBoundException_kName = ''LowerBoundException''"

definition UpperBoundException_kName :: string where
  "UpperBoundException_kName = ''UpperBoundException''"

definition LowerBoundException ::
  "'a ValueType \<Rightarrow> string \<Rightarrow> string \<Rightarrow> string \<Rightarrow> 'a \<Rightarrow> 'a \<Rightarrow> 'a LowerBoundException" where
  "LowerBoundException T line_info func_info custom_message value_in min_in =
     LowerBoundException_object
       (BoundsException_protected T LowerBoundException_kName line_info func_info custom_message
          value_in min_in (limits_max T))"

definition UpperBoundException ::
  "'a ValueType \<Rightarrow> string \<Rightarrow> string \<Rightarrow> string \<Rightarrow> 'a \<Rightarrow> 'a \<Rightarrow> 'a UpperBoundException" where
  "UpperBoundException T line_info func_info custom_message value_in max_in =
     UpperBoundException_object
       (BoundsException_protected T UpperBoundException_kName line_info func_info custom_message
          value_in (limits_lowest T) max_in)"

section \<open>InvalidValueException\<close>

record 'a InvalidValueException =
  invalid_value :: 'a
  invalid_truth :: 'a
  invalid_tolerance :: 'a
  invalid_message :: string

definition InvalidValueException_kName :: string where
  "InvalidValueException_kName = ''InvalidValueException''"

text \<open>The sign \<^verbatim>\<open>U+00B1\<close> as the two bytes of its UTF-8 encoding.\<close>

definition plus_minus :: string where
  "plus_minus = [CHR 0xC2, CHR 0xB1]"

definition invalid_description :: "'a ValueType \<Rightarrow> 'a \<Rightarrow> 'a \<Rightarrow> string" where
  "invalid_description T v t =
     to_string T v @ '' != '' @ to_string T t @ '' (value != truth).''"

definition invalid_description_tolerance :: "'a ValueType \<Rightarrow> 'a \<Rightarrow> 'a \<Rightarrow> 'a \<Rightarrow> string" where
  "invalid_description_tolerance T v t tol =
     to_string T v @ '' != '' @ to_string T t @ '' '' @ plus_minus @ '' '' @ to_string T tol
       @ '' (value != truth '' @ plus_minus @ '' tolerance).''"

text \<open>
  Modelled from the spec: the bodies of the two constructors of
  \<^verbatim>\<open>InvalidValueException\<close>, declared in the header and defined elsewhere.
  Section 4.6 gives the two formats and says that the tolerance is a sentinel, zero, when
  the form without tolerance is used. The restriction of the second form to floating-point
  types is a constraint on template instantiation and has no run-time counterpart.
\<close>

definition InvalidValueException ::
  "('a::zero) ValueType \<Rightarrow> string \<Rightarrow> string \<Rightarrow> string \<Rightarrow> 'a \<Rightarrow> 'a \<Rightarrow> 'a InvalidValueException" where
  "InvalidValueException T line_info func_info custom_message value_in truth_in =
     \<lparr>invalid_value = value_in, invalid_truth = truth_in, invalid_tolerance = 0,
      invalid_message =
        append_debug_info line_info func_info custom_message
          (InvalidValueException_kName @ '': '' @ invalid_description T value_in truth_in @ '' '')\<rparr>"

definition InvalidValueException_with_tolerance ::
  "'a ValueType \<Rightarrow> string \<Rightarrow> string \<Rightarrow> string \<Rightarrow> 'a \<Rightarrow> 'a \<Rightarrow> 'a \<Rightarrow> 'a InvalidValueException" where
  "InvalidValueException_with_tolerance T line_info func_info custom_message value_in truth_in tolerance_in =
     \<lparr>invalid_value = value_in, invalid_truth = truth_in, invalid_tolerance = tolerance_in,
      invalid_message =
        append_debug_info line_info func_info custom_message
          (InvalidValueException_kName @ '': ''
             @ invalid_description_tolerance T value_in truth_in tolerance_in @ '' '')\<rparr>"

definition InvalidValueException_what :: "'a InvalidValueException \<Rightarrow> string" where
  "InvalidValueException_what e = invalid_message e"

definition InvalidValueException_value :: "'a InvalidValueException \<Rightarrow> 'a" where
  "InvalidValueException_value e = invalid_value e"

definition InvalidValueException_truth :: "'a InvalidValueException \<Rightarrow> 'a" where
  "InvalidValueException_truth e = invalid_truth e"

definition InvalidValueException_tolerance :: "'a InvalidValueException \<Rightarrow> 'a" where
  "InvalidValueException_tolerance e = invalid_tolerance e"

section \<open>SingularMatrixException\<close>

text \<open>
  The caller's matrix is reached through \<^verbatim>\<open>double const * matrix_in\<close>: memory is a
  map from addresses, counted in doubles, to doubles, and the pointer is an address.
  The member \<^verbatim>\<open>std::vector<double> matrix_\<close> holds values, not addresses.
\<close>

type_synonym memory = "nat \<Rightarrow> double"

record SingularMatrixException =
  singular_num_rows :: c_int
  singular_num_cols :: c_int
  singular_matrix :: "double list"
  singular_message :: string

definition SingularMatrixException_kName :: string where
  "SingularMatrixException_kName = ''SingularMatrixException''"

definition singular_description :: "c_int \<Rightarrow> c_int \<Rightarrow> string" where
  "singular_description m n =
     string_of_int (sint m) @ '' x '' @ string_of_int (sint n) @ '' matrix is singular.''"

text \<open>
  Modelled from the spec: the body of
  \<^verbatim>\<open>SingularMatrixException(line_info, func_info, custom_message, matrix_in, num_rows_in, num_cols_in)\<close>,
  declared in the header and defined elsewhere. Section 4.7: it copies the
  \<^verbatim>\<open>rows * cols\<close> entries found at \<^verbatim>\<open>matrix_in\<close> into owned storage and formats
  \<^verbatim>\<open>"<kind>: <rows> x <cols> matrix is singular. <custom message> <calling routine> <location>"\<close>.
  The header documents the argument as \<^verbatim>\<open>matrix[num_rows][num_cols]\<close>; dimensions
  whose product is negative or exceeds an \<^verbatim>\<open>int\<close> are outside that contract.
\<close>

definition SingularMatrixException ::
  "memory \<Rightarrow> string \<Rightarrow> string \<Rightarrow> string \<Rightarrow> nat \<Rightarrow> c_int \<Rightarrow> c_int \<Rightarrow> SingularMatrixException" where
  "SingularMatrixException mem line_info func_info custom_message matrix_in num_rows_in num_cols_in =
     \<lparr>singular_num_rows = num_rows_in, singular_num_cols = num_cols_in,
      singular_matrix =
        map mem [matrix_in ..< matrix_in + nat (sint num_rows_in * sint num_cols_in)],
      singular_message =
        append_debug_info line_info func_info custom_message
          (SingularMatrixException_kName @ '': ''
             @ singular_description num_rows_in num_cols_in @ '' '')\<rparr>"

definition SingularMatrixException_what :: "SingularMatrixException \<Rightarrow> string" where
  "SingularMatrixException_what e = singular_message e"

definition SingularMatrixException_num_rows :: "SingularMatrixException \<Rightarrow> c_int" where
  "SingularMatrixException_num_rows e = singular_num_rows e"

definition SingularMatrixException_num_cols :: "SingularMatrixException \<Rightarrow> c_int" where
  "SingularMatrixException_num_cols e = singular_num_cols e"

definition SingularMatrixException_matrix :: "SingularMatrixException \<Rightarrow> double list" where
  "SingularMatrixException_matrix e = singular_matrix e"

section \<open>Raising and catching\<close>

text \<open>
  The objects \<^verbatim>\<open>ThrowException\<close> is instantiated for in this library: one
  alternative per exception class, the tag being the template argument
  \<^verbatim>\<open>ExceptionType\<close>, which is the type of the object in flight.
\<close>

datatype 'a exception =
    Runtime_exception RuntimeException
  | Bounds_exception "'a BoundsException"
  | LowerBound_exception "'a LowerBoundException"
  | UpperBound_exception "'a UpperBoundException"
  | InvalidValue_exception "'a InvalidValueException"
  | SingularMatrix_exception SingularMatrixException

text \<open>
  \<^verbatim>\<open>throw except;\<close> A call has one outcome, the exception: \<open>Inl\<close>. A value
  returned to the caller would be \<open>Inr\<close>.
\<close>

definition ThrowException :: "'a exception \<Rightarrow> 'a exception + 'r" where
  "ThrowException except = Inl except"

text \<open>
  Handlers by declared type, \<^verbatim>\<open>catch (const K& e)\<close>: a handler takes the object
  when its class is \<^verbatim>\<open>K\<close> or derives publicly from \<^verbatim>\<open>K\<close>, and sees it as a
  \<^verbatim>\<open>K\<close>.
\<close>

fun catch_RuntimeException :: "'a exception \<Rightarrow> RuntimeException option" where
  "catch_RuntimeException (Runtime_exception e) = Some e"
| "catch_RuntimeException _ = None"

fun catch_BoundsException :: "'a exception \<Rightarrow> 'a BoundsException option" where
  "catch_BoundsException (Bounds_exception e) = Some e"
| "catch_BoundsException (LowerBound_exception e) = Some (LowerBoundException_base e)"
| "catch_BoundsException (UpperBound_exception e) = Some (UpperBoundException_base e)"
| "catch_BoundsException _ = None"

fun catch_LowerBoundException :: "'a exception \<Rightarrow> 'a LowerBoundException option" where
  "catch_LowerBoundException (LowerBound_exception e) = Some e"
| "catch_LowerBoundException _ = None"

fun catch_UpperBoundException :: "'a exception \<Rightarrow> 'a UpperBoundException option" where
  "catch_UpperBoundException (UpperBound_exception e) = Some e"
| "catch_UpperBoundException _ = None"

fun catch_InvalidValueException :: "'a exception \<Rightarrow> 'a InvalidValueException option" where
  "catch_InvalidValueException (InvalidValue_exception e) = Some e"
| "catch_InvalidValueException _ = None"

fun catch_SingularMatrixException :: "'a exception \<Rightarrow> SingularMatrixException option" where
  "catch_SingularMatrixException (SingularMatrix_exception e) = Some e"
| "catch_SingularMatrixException _ = None"

text \<open>
  \<^verbatim>\<open>try { body } catch (const K& e) { ... }\<close>: what becomes of the outcome of the
  body under one handler.
\<close>

datatype ('e, 'r, 'h) outcome = Returned 'r | Handled 'h | Propagated 'e

fun try_catch :: "'e + 'r \<Rightarrow> ('e \<Rightarrow> 'h option) \<Rightarrow> ('e, 'r, 'h) outcome" where
  "try_catch (Inr r) handler = Returned r"
| "try_catch (Inl e) handler = (case handler e of Some h \<Rightarrow> Handled h | None \<Rightarrow> Propagated e)"

section \<open>Containment in order\<close>

text \<open>
  \<open>after_first p s\<close> is what follows the leftmost occurrence of \<open>p\<close> in \<open>s\<close>;
  \<open>contains_in_order ps s\<close> holds when the strings \<open>ps\<close> occur in \<open>s\<close> one after the
  other, without overlap.
\<close>

fun after_first :: "string \<Rightarrow> string \<Rightarrow> string option" where
  "after_first p [] = (if p = [] then Some [] else None)"
| "after_first p (c # cs) =
     (if prefix p (c # cs) then Some (drop (length p) (c # cs)) else after_first p cs)"

fun contains_in_order :: "string list \<Rightarrow> string \<Rightarrow> bool" where
  "contains_in_order [] s = True"
| "contains_in_order (p # ps) s =
     (case after_first p s of None \<Rightarrow> False | Some rest \<Rightarrow> contains_in_order ps rest)"

section \<open>Evaluating the decimal text\<close>

lemma string_of_nat_numeral:
  "string_of_nat (numeral k) = (if numeral k < (10::nat) then [digit_char (numeral k)]
     else string_of_nat (numeral k div 10) @ [digit_char (numeral k mod 10)])"
  by (rule string_of_nat.simps)

lemma string_of_nat_0: "string_of_nat 0 = ''0''"
  by (simp add: string_of_nat.simps [of 0] digit_char_def)

lemma string_of_nat_1: "string_of_nat (Suc 0) = ''1''"
  by (simp add: string_of_nat.simps [of "Suc 0"] digit_char_def)

lemmas decimal_eval =
  string_of_int_def string_of_nat_numeral string_of_nat_0 string_of_nat_1 digit_char_def

section \<open>Occurrences in order\<close>

lemma after_first_decomp: "after_first p s = Some r \<Longrightarrow> \<exists>u. s = u @ p @ r"
proof (induction s)
  case Nil
  then show ?case by (simp split: if_splits)
next
  case (Cons c cs)
  show ?case
  proof (cases "prefix p (c # cs)")
    case True
    with Cons.prems have r: "r = drop (length p) (c # cs)" by simp
    from True obtain t where t: "c # cs = p @ t" by (auto simp: prefix_def)
    have "c # cs = [] @ p @ r" unfolding r t by simp
    then show ?thesis by blast
  next
    case False
    with Cons.prems have "after_first p cs = Some r" by simp
    then obtain u where "cs = u @ p @ r" using Cons.IH by blast
    then have "c # cs = (c # u) @ p @ r" by simp
    then show ?thesis by blast
  qed
qed

lemma after_first_self: "after_first p (p @ r) = Some r"
proof (cases "p @ r")
  case Nil
  then show ?thesis by simp
next
  case (Cons c cs)
  have "prefix p (p @ r)" by simp
  then have "after_first p (p @ r) = Some (drop (length p) (p @ r))"
    unfolding Cons by simp
  then show ?thesis by simp
qed

lemma after_first_extend:
  "after_first p s = Some r \<Longrightarrow> \<exists>r'. after_first p (x @ s) = Some r' \<and> suffix r r'"
proof (induction x)
  case Nil
  then show ?case by simp
next
  case (Cons c x)
  show ?case
  proof (cases "prefix p (c # x @ s)")
    case True
    from Cons.prems obtain u where u: "s = u @ p @ r" using after_first_decomp by blast
    have whole: "suffix r (c # x @ s)" unfolding u suffix_def by (intro exI [of _ "c # x @ u @ p"]) simp
    have "suffix (drop (length p) (c # x @ s)) (c # x @ s)" by (rule suffix_drop)
    moreover have "length r \<le> length (drop (length p) (c # x @ s))" unfolding u by simp
    ultimately have "suffix r (drop (length p) (c # x @ s))"
      using whole suffix_length_suffix by blast
    with True show ?thesis by simp
  next
    case False
    with Cons show ?thesis by simp
  qed
qed

lemma contains_in_order_suffix:
  "contains_in_order ps r \<Longrightarrow> suffix r r' \<Longrightarrow> contains_in_order ps r'"
proof (induction ps arbitrary: r r')
  case Nil
  then show ?case by simp
next
  case (Cons p ps)
  from Cons.prems(1) obtain r1 where r1: "after_first p r = Some r1" "contains_in_order ps r1"
    by (auto split: option.splits)
  from Cons.prems(2) obtain x where "r' = x @ r" by (auto simp: suffix_def)
  with after_first_extend [OF r1(1), of x] obtain r2
    where r2: "after_first p r' = Some r2" "suffix r1 r2" by blast
  from Cons.IH [OF r1(2) r2(2)] r2(1) show ?case by simp
qed

lemma contains_in_order_Cons:
  assumes "contains_in_order ps r"
  shows "contains_in_order (p # ps) (a @ p @ r)"
proof -
  from after_first_extend [OF after_first_self [of p r], of a] obtain r2
    where r2: "after_first p (a @ p @ r) = Some r2" "suffix r r2" by blast
  from contains_in_order_suffix [OF assms r2(2)] r2(1) show ?thesis by simp
qed

lemma message_fields_in_order:
  "contains_in_order [name, descr, custom_message, func_info, line_info]
     (append_debug_info line_info func_info custom_message (name @ '': '' @ descr @ '' ''))"
proof -
  have 1: "contains_in_order [line_info] ('' '' @ line_info @ [])"
    by (rule contains_in_order_Cons) simp
  have 2: "contains_in_order [func_info, line_info] ('' '' @ func_info @ '' '' @ line_info @ [])"
    by (rule contains_in_order_Cons [OF 1])
  have 3: "contains_in_order [custom_message, func_info, line_info]
      ('' '' @ custom_message @ '' '' @ func_info @ '' '' @ line_info @ [])"
    by (rule contains_in_order_Cons [OF 2])
  have 4: "contains_in_order [descr, custom_message, func_info, line_info]
      ('': '' @ descr @ '' '' @ custom_message @ '' '' @ func_info @ '' '' @ line_info @ [])"
    by (rule contains_in_order_Cons [OF 3])
  have 5: "contains_in_order [name, descr, custom_message, func_info, line_info]
      ([] @ name @ '': '' @ descr @ '' '' @ custom_message @ '' '' @ func_info @ '' '' @ line_info @ [])"
    by (rule contains_in_order_Cons [OF 4])
  have "append_debug_info line_info func_info custom_message (name @ '': '' @ descr @ '' '')
      = [] @ name @ '': '' @ descr @ '' '' @ custom_message @ '' '' @ func_info @ '' '' @ line_info @ []"
    by (simp add: append_debug_info_def)
  with 5 show ?thesis by (simp only:)
qed

lemma runtime_fields_in_order:
  "contains_in_order [name, custom_message, func_info, line_info]
     (append_debug_info line_info func_info custom_message (name @ '': ''))"
proof -
  have 1: "contains_in_order [line_info] ('' '' @ line_info @ [])"
    by (rule contains_in_order_Cons) simp
  have 2: "contains_in_order [func_info, line_info] ('' '' @ func_info @ '' '' @ line_info @ [])"
    by (rule contains_in_order_Cons [OF 1])
  have 3: "contains_in_order [custom_message, func_info, line_info]
      ('': '' @ custom_message @ '' '' @ func_info @ '' '' @ line_info @ [])"
    by (rule contains_in_order_Cons [OF 2])
  have 4: "contains_in_order [name, custom_message, func_info, line_info]
      ([] @ name @ '': '' @ custom_message @ '' '' @ func_info @ '' '' @ line_info @ [])"
    by (rule contains_in_order_Cons [OF 3])
  have "append_debug_info line_info func_info custom_message (name @ '': '')
      = [] @ name @ '': '' @ custom_message @ '' '' @ func_info @ '' '' @ line_info @ []"
    by (simp add: append_debug_info_def)
  with 4 show ?thesis by (simp only:)
qed

text \<open>The order matters, and occurrences may not overlap.\<close>

lemma contains_in_order_examples:
  "contains_in_order [''a'', ''b''] ''xaxbx''"
  "\<not> contains_in_order [''b'', ''a''] ''ab''"
  "\<not> contains_in_order [''ab'', ''bc''] ''abc''"
  by simp_all

section \<open>Unfolding the constructors and accessors\<close>

lemmas ctor_defs =
  RuntimeException_def BoundsException_def BoundsException_protected_def
  LowerBoundException_def UpperBoundException_def
  InvalidValueException_def InvalidValueException_with_tolerance_def SingularMatrixException_def

lemmas accessor_defs =
  RuntimeException_what_def
  BoundsException_what_def BoundsException_value_def BoundsException_min_def BoundsException_max_def
  InvalidValueException_what_def InvalidValueException_value_def InvalidValueException_truth_def
  InvalidValueException_tolerance_def
  SingularMatrixException_what_def SingularMatrixException_num_rows_def
  SingularMatrixException_num_cols_def SingularMatrixException_matrix_def

lemmas kName_defs =
  RuntimeException_kName_def BoundsException_kName_def LowerBoundException_kName_def
  UpperBoundException_kName_def InvalidValueException_kName_def SingularMatrixException_kName_def

section \<open>The location token of the header's example\<close>

lemma OL_STRINGIFY_FILE_AND_LINE_example:
  "OL_STRINGIFY_FILE_AND_LINE ''gpp_foo.cpp'' 893 = ''(gpp_foo.cpp: 893)''"
  by (simp add: OL_STRINGIFY_FILE_AND_LINE_def decimal_eval)

section \<open>The fields of the diagnostic string\<close>

text \<open>
  Claim C1, as stated, asks every kind, \<^verbatim>\<open>RuntimeException\<close> included, for a
  condition-specific description between the kind name and the custom message. A
  \<^verbatim>\<open>RuntimeException\<close> has no payload and no such description: its string is the
  kind name, a colon and a space, and then at once the custom message, the routine and
  the location.
\<close>

theorem RuntimeException_what_has_no_description:
  "RuntimeException_what (RuntimeException ''(gpp_foo.cpp: 893)'' ''Foo'' ''bad input'')
     = ''RuntimeException: bad input Foo (gpp_foo.cpp: 893)''
   \<and> after_first (RuntimeException_kName @ '': '')
       (RuntimeException_what (RuntimeException ''(gpp_foo.cpp: 893)'' ''Foo'' ''bad input''))
     = Some ''bad input Foo (gpp_foo.cpp: 893)''"
  by (simp add: RuntimeException_what_def RuntimeException_def RuntimeException_kName_def
      append_debug_info_def)

text \<open>
  Claim C1, amended: for \<^verbatim>\<open>BoundsException\<close>, \<^verbatim>\<open>LowerBoundException\<close>,
  \<^verbatim>\<open>UpperBoundException\<close>, \<^verbatim>\<open>InvalidValueException\<close> (both constructors) and
  \<^verbatim>\<open>SingularMatrixException\<close>, and all constructor arguments, the string returned by
  \<^verbatim>\<open>what()\<close> contains, in this order, the class's \<^verbatim>\<open>kName\<close>, the description of
  the condition, the custom message, the name of the calling routine and the location
  token. For \<^verbatim>\<open>RuntimeException\<close> it contains, in this order, the \<^verbatim>\<open>kName\<close>, the
  custom message, the calling routine and the location token.
\<close>

theorem what_contains_fields_in_order:
  "contains_in_order [RuntimeException_kName, custom_message, func_info, line_info]
     (RuntimeException_what (RuntimeException line_info func_info custom_message))
   \<and> contains_in_order
       [BoundsException_kName, bounds_description T v mn mx, custom_message, func_info, line_info]
       (BoundsException_what (BoundsException T line_info func_info custom_message v mn mx))
   \<and> contains_in_order
       [LowerBoundException_kName, bounds_description T v mn (limits_max T),
        custom_message, func_info, line_info]
       (BoundsException_what
          (LowerBoundException_base (LowerBoundException T line_info func_info custom_message v mn)))
   \<and> contains_in_order
       [UpperBoundException_kName, bounds_description T v (limits_lowest T) mx,
        custom_message, func_info, line_info]
       (BoundsException_what
          (UpperBoundException_base (UpperBoundException T line_info func_info custom_message v mx)))
   \<and> contains_in_order
       [InvalidValueException_kName, invalid_description Z z t, custom_message, func_info, line_info]
       (InvalidValueException_what (InvalidValueException Z line_info func_info custom_message z t))
   \<and> contains_in_order
       [InvalidValueException_kName, invalid_description_tolerance T v t' tol,
        custom_message, func_info, line_info]
       (InvalidValueException_what
          (InvalidValueException_with_tolerance T line_info func_info custom_message v t' tol))
   \<and> contains_in_order
       [SingularMatrixException_kName, singular_description m n, custom_message, func_info, line_info]
       (SingularMatrixException_what
          (SingularMatrixException mem line_info func_info custom_message p m n))"
  by (simp only: RuntimeException_what_def RuntimeException_def
      BoundsException_what_def BoundsException_def BoundsException_protected_def
      LowerBoundException_def UpperBoundException_def
      LowerBoundException.sel UpperBoundException.sel
      InvalidValueException_what_def InvalidValueException_def InvalidValueException_with_tolerance_def
      SingularMatrixException_what_def SingularMatrixException_def
      RuntimeException.simps BoundsException.simps InvalidValueException.simps
      SingularMatrixException.simps
      message_fields_in_order runtime_fields_in_order simp_thms)

section \<open>BoundsException: payload and format\<close>

text \<open>
  Claim C3, as stated, gives the message the prefix \<^verbatim>\<open>BoundsError: \<close>. The public
  constructor passes the class's \<^verbatim>\<open>kName\<close>, which the header sets to
  \<^verbatim>\<open>"BoundsException"\<close>, so for value 5, min 0, max 3 the message starts with
  \<^verbatim>\<open>BoundsException: \<close> and is not the string the claim's format gives.
\<close>

theorem BoundsException_what_is_not_BoundsError:
  "BoundsException_what
     (BoundsException int_type ''(gpp_foo.cpp: 893)'' ''Foo'' ''Invalid length scale.'' 5 0 3)
     = ''BoundsException: 5 is not in range [0, 3]. Invalid length scale. Foo (gpp_foo.cpp: 893)''
   \<and> BoundsException_what
     (BoundsException int_type ''(gpp_foo.cpp: 893)'' ''Foo'' ''Invalid length scale.'' 5 0 3)
     \<noteq> ''BoundsError: 5 is not in range [0, 3]. Invalid length scale. Foo (gpp_foo.cpp: 893)''
   \<and> \<not> contains_in_order [''BoundsError'']
       (BoundsException_what
          (BoundsException int_type ''(gpp_foo.cpp: 893)'' ''Foo'' ''Invalid length scale.'' 5 0 3))"
  by (simp add: ctor_defs accessor_defs kName_defs append_debug_info_def bounds_description_def
      int_type_def decimal_eval)

text \<open>
  Claim C3, amended: for every value type and all arguments \<open>v\<close>, \<open>mn\<close>, \<open>mx\<close>, with
  no condition relating them (so also when \<open>mn\<close> is above \<open>mx\<close>), the constructor
  stores the three values as given, \<^verbatim>\<open>value()\<close>, \<^verbatim>\<open>min()\<close> and \<^verbatim>\<open>max()\<close>
  return them, and the message is
  \<^verbatim>\<open>"BoundsException: <value> is not in range [<min>, <max>]. <custom message> <calling routine> <location>"\<close>.
\<close>

theorem BoundsException_stores_verbatim:
  "BoundsException_value (BoundsException T line_info func_info custom_message v mn mx) = v
   \<and> BoundsException_min (BoundsException T line_info func_info custom_message v mn mx) = mn
   \<and> BoundsException_max (BoundsException T line_info func_info custom_message v mn mx) = mx
   \<and> BoundsException_what (BoundsException T line_info func_info custom_message v mn mx)
       = ''BoundsException: '' @ to_string T v @ '' is not in range ['' @ to_string T mn
           @ '', '' @ to_string T mx @ '']. '' @ custom_message @ '' '' @ func_info
           @ '' '' @ line_info"
  by (simp add: ctor_defs accessor_defs kName_defs append_debug_info_def bounds_description_def)

text \<open>The spec's example: value 5, minimum 0, maximum 3.\<close>

lemma BoundsException_example:
  "contains_in_order [''5 is not in range [0, 3]'']
     (BoundsException_what
        (BoundsException int_type ''(gpp_foo.cpp: 893)'' ''Foo'' ''Invalid length scale.'' 5 0 3))"
  by (simp add: ctor_defs accessor_defs kName_defs append_debug_info_def bounds_description_def
      int_type_def decimal_eval)

text \<open>With the lower bound above the upper bound the message is formed all the same.\<close>

lemma BoundsException_min_above_max:
  "BoundsException_what (BoundsException int_type ''(f.cpp: 1)'' ''g'' ''m'' 5 3 0)
     = ''BoundsException: 5 is not in range [3, 0]. m g (f.cpp: 1)''"
  by (simp add: ctor_defs accessor_defs kName_defs append_debug_info_def bounds_description_def
      int_type_def decimal_eval)

section \<open>LowerBoundException and UpperBoundException: the sentinel bound\<close>

lemma int_type_limits:
  "sint (v :: c_int) \<le> sint (limits_max int_type) \<and> sint (limits_lowest int_type) \<le> sint v"
proof -
  have "sint v < 2 ^ (LENGTH(32) - 1)" by (rule sint_lt)
  moreover have "- (2 ^ (LENGTH(32) - 1)) \<le> sint v" by (rule sint_ge)
  ultimately show ?thesis by (simp add: int_type_def)
qed

text \<open>
  Claim C2, as stated, lets the string of a \<^verbatim>\<open>LowerBoundException\<close> match the format
  of \<^verbatim>\<open>BoundsException\<close> with nothing but the sentinel substituted. The constructor
  passes its own \<^verbatim>\<open>kName\<close>, \<^verbatim>\<open>"LowerBoundException"\<close>, to the protected
  constructor, so for value -1 and minimum 0 the string differs from that of a
  \<^verbatim>\<open>BoundsException\<close> built with the same arguments and the sentinel, and starts with
  neither \<^verbatim>\<open>BoundsException: \<close> nor \<^verbatim>\<open>BoundsError: \<close>.
\<close>

theorem LowerBoundException_what_differs_from_BoundsException_what:
  "BoundsException_what
     (LowerBoundException_base
        (LowerBoundException int_type ''(gpp_foo.cpp: 893)'' ''Foo'' ''Too small.'' (- 1) 0))
     = ''LowerBoundException: -1 is not in range [0, 2147483647]. Too small. Foo (gpp_foo.cpp: 893)''
   \<and> BoundsException_what
     (BoundsException int_type ''(gpp_foo.cpp: 893)'' ''Foo'' ''Too small.'' (- 1) 0
        (limits_max int_type))
     = ''BoundsException: -1 is not in range [0, 2147483647]. Too small. Foo (gpp_foo.cpp: 893)''
   \<and> BoundsException_what
     (LowerBoundException_base
        (LowerBoundException int_type ''(gpp_foo.cpp: 893)'' ''Foo'' ''Too small.'' (- 1) 0))
     \<noteq> BoundsException_what
       (BoundsException int_type ''(gpp_foo.cpp: 893)'' ''Foo'' ''Too small.'' (- 1) 0
          (limits_max int_type))
   \<and> \<not> prefix ''BoundsException: ''
       (BoundsException_what
          (LowerBoundException_base
             (LowerBoundException int_type ''(gpp_foo.cpp: 893)'' ''Foo'' ''Too small.'' (- 1) 0)))
   \<and> \<not> prefix ''BoundsError: ''
       (BoundsException_what
          (LowerBoundException_base
             (LowerBoundException int_type ''(gpp_foo.cpp: 893)'' ''Foo'' ''Too small.'' (- 1) 0)))"
  by (simp add: ctor_defs accessor_defs kName_defs append_debug_info_def bounds_description_def
      int_type_def decimal_eval)

text \<open>
  Claim C2, amended: for every value type and all arguments, the constructor of
  \<^verbatim>\<open>LowerBoundException\<close> is the protected constructor of \<^verbatim>\<open>BoundsException\<close>
  applied to the given value and minimum and to \<^verbatim>\<open>numeric_limits<T>::max()\<close>, so
  \<^verbatim>\<open>max()\<close> is that sentinel; the constructor of \<^verbatim>\<open>UpperBoundException\<close> is the
  same constructor applied to \<^verbatim>\<open>numeric_limits<T>::lowest()\<close> as the minimum, so
  \<^verbatim>\<open>min()\<close> is that sentinel. Neither formats anything itself. The string is
  \<^verbatim>\<open>"<kName>: <value> is not in range [<min>, <max>]. <custom message> <calling routine> <location>"\<close>
  with the sentinel as the bound and the subclass's own \<^verbatim>\<open>kName\<close>,
  \<^verbatim>\<open>LowerBoundException\<close> or \<^verbatim>\<open>UpperBoundException\<close>, as the kind name: it is the
  string of a \<^verbatim>\<open>BoundsException\<close> with the same arguments and the sentinel, the kind
  name replaced. For \<^verbatim>\<open>int\<close> the two sentinels are the greatest and the least value of
  the type.
\<close>

theorem bound_exceptions_delegate:
  "LowerBoundException_base (LowerBoundException T line_info func_info custom_message v mn)
     = BoundsException_protected T LowerBoundException_kName line_info func_info custom_message
         v mn (limits_max T)
   \<and> BoundsException_max
       (LowerBoundException_base (LowerBoundException T line_info func_info custom_message v mn))
     = limits_max T
   \<and> BoundsException_value
       (LowerBoundException_base (LowerBoundException T line_info func_info custom_message v mn))
     = v
   \<and> BoundsException_min
       (LowerBoundException_base (LowerBoundException T line_info func_info custom_message v mn))
     = mn
   \<and> BoundsException_what
       (LowerBoundException_base (LowerBoundException T line_info func_info custom_message v mn))
     = ''LowerBoundException: '' @ to_string T v @ '' is not in range ['' @ to_string T mn
         @ '', '' @ to_string T (limits_max T) @ '']. '' @ custom_message @ '' '' @ func_info
         @ '' '' @ line_info
   \<and> BoundsException_what
       (LowerBoundException_base (LowerBoundException T line_info func_info custom_message v mn))
     = LowerBoundException_kName @ drop (length BoundsException_kName)
         (BoundsException_what
            (BoundsException T line_info func_info custom_message v mn (limits_max T)))
   \<and> UpperBoundException_base (UpperBoundException T line_info func_info custom_message v mx)
     = BoundsException_protected T UpperBoundException_kName line_info func_info custom_message
         v (limits_lowest T) mx
   \<and> BoundsException_min
       (UpperBoundException_base (UpperBoundException T line_info func_info custom_message v mx))
     = limits_lowest T
   \<and> BoundsException_value
       (UpperBoundException_base (UpperBoundException T line_info func_info custom_message v mx))
     = v
   \<and> BoundsException_max
       (UpperBoundException_base (UpperBoundException T line_info func_info custom_message v mx))
     = mx
   \<and> BoundsException_what
       (UpperBoundException_base (UpperBoundException T line_info func_info custom_message v mx))
     = ''UpperBoundException: '' @ to_string T v @ '' is not in range [''
         @ to_string T (limits_lowest T) @ '', '' @ to_string T mx @ '']. '' @ custom_message
         @ '' '' @ func_info @ '' '' @ line_info
   \<and> BoundsException_what
       (UpperBoundException_base (UpperBoundException T line_info func_info custom_message v mx))
     = UpperBoundException_kName @ drop (length BoundsException_kName)
         (BoundsException_what
            (BoundsException T line_info func_info custom_message v (limits_lowest T) mx))
   \<and> sint (i :: c_int) \<le> sint (limits_max int_type)
   \<and> sint (limits_lowest int_type) \<le> sint i"
  using int_type_limits [of i]
  by (simp add: ctor_defs accessor_defs append_debug_info_def kName_defs bounds_description_def)

text \<open>The spec's example: \<^verbatim>\<open>LowerBoundException<int>\<close> with value -1 and minimum 0.\<close>

lemma LowerBoundException_int_example:
  "BoundsException_max
     (LowerBoundException_base (LowerBoundException int_type ''(f.cpp: 1)'' ''g'' ''m'' (- 1) 0))
     = 2147483647
   \<and> BoundsException_what
     (LowerBoundException_base (LowerBoundException int_type ''(f.cpp: 1)'' ''g'' ''m'' (- 1) 0))
     = ''LowerBoundException: -1 is not in range [0, 2147483647]. m g (f.cpp: 1)''"
  by (simp add: ctor_defs accessor_defs kName_defs append_debug_info_def bounds_description_def
      int_type_def decimal_eval)

section \<open>Raising and catching by declared kind\<close>

text \<open>
  Claim C4: for every kind and every payload, raising the object with
  \<^verbatim>\<open>ThrowException\<close> and catching it by its own class hands the handler the object that
  was raised, whose accessors return the payload the constructor was given; and no call
  of \<^verbatim>\<open>ThrowException\<close> returns to its caller.
\<close>

theorem ThrowException_round_trip:
  "try_catch
       (ThrowException
          (Runtime_exception (RuntimeException line_info func_info custom_message)))
       catch_RuntimeException
     = Handled (RuntimeException line_info func_info custom_message)
   \<and> try_catch
       (ThrowException
          (Bounds_exception (BoundsException T line_info func_info custom_message v mn mx)))
       catch_BoundsException
     = Handled (BoundsException T line_info func_info custom_message v mn mx)
   \<and> BoundsException_value (BoundsException T line_info func_info custom_message v mn mx) = v
   \<and> BoundsException_min (BoundsException T line_info func_info custom_message v mn mx) = mn
   \<and> BoundsException_max (BoundsException T line_info func_info custom_message v mn mx) = mx
   \<and> try_catch
       (ThrowException
          (LowerBound_exception (LowerBoundException T line_info func_info custom_message v mn)))
       catch_LowerBoundException
     = Handled (LowerBoundException T line_info func_info custom_message v mn)
   \<and> BoundsException_value
       (LowerBoundException_base (LowerBoundException T line_info func_info custom_message v mn)) = v
   \<and> BoundsException_min
       (LowerBoundException_base (LowerBoundException T line_info func_info custom_message v mn)) = mn
   \<and> try_catch
       (ThrowException
          (UpperBound_exception (UpperBoundException T line_info func_info custom_message v mx)))
       catch_UpperBoundException
     = Handled (UpperBoundException T line_info func_info custom_message v mx)
   \<and> BoundsException_value
       (UpperBoundException_base (UpperBoundException T line_info func_info custom_message v mx)) = v
   \<and> BoundsException_max
       (UpperBoundException_base (UpperBoundException T line_info func_info custom_message v mx)) = mx
   \<and> try_catch
       (ThrowException
          (InvalidValue_exception (InvalidValueException Z line_info func_info custom_message z t)))
       catch_InvalidValueException
     = Handled (InvalidValueException Z line_info func_info custom_message z t)
   \<and> InvalidValueException_value (InvalidValueException Z line_info func_info custom_message z t) = z
   \<and> InvalidValueException_truth (InvalidValueException Z line_info func_info custom_message z t) = t
   \<and> try_catch
       (ThrowException
          (InvalidValue_exception (InvalidValueException_with_tolerance T line_info func_info custom_message v t' tol)))
       catch_InvalidValueException
     = Handled (InvalidValueException_with_tolerance T line_info func_info custom_message v t' tol)
   \<and> InvalidValueException_value
       (InvalidValueException_with_tolerance T line_info func_info custom_message v t' tol) = v
   \<and> InvalidValueException_truth
       (InvalidValueException_with_tolerance T line_info func_info custom_message v t' tol) = t'
   \<and> InvalidValueException_tolerance
       (InvalidValueException_with_tolerance T line_info func_info custom_message v t' tol) = tol
   \<and> try_catch
       (ThrowException
          (SingularMatrix_exception (SingularMatrixException mem line_info func_info custom_message p m n)))
       catch_SingularMatrixException
     = Handled (SingularMatrixException mem line_info func_info custom_message p m n)
   \<and> SingularMatrixException_num_rows
       (SingularMatrixException mem line_info func_info custom_message p m n) = m
   \<and> SingularMatrixException_num_cols
       (SingularMatrixException mem line_info func_info custom_message p m n) = n
   \<and> SingularMatrixException_matrix
       (SingularMatrixException mem line_info func_info custom_message p m n)
     = map mem [p ..< p + nat (sint m * sint n)]
   \<and> ThrowException except \<noteq> Inr r
   \<and> try_catch (ThrowException except) handler \<noteq> Returned r"
  by (simp add: ThrowException_def ctor_defs accessor_defs split: option.split)

text \<open>
  Claim C10: \<^verbatim>\<open>LowerBoundException\<close> and \<^verbatim>\<open>UpperBoundException\<close> derive publicly from
  \<^verbatim>\<open>BoundsException\<close>: a handler declared for \<^verbatim>\<open>BoundsException\<close> takes a raised
  object of either subclass, as its base subobject, and \<^verbatim>\<open>value()\<close>, \<^verbatim>\<open>min()\<close> and
  \<^verbatim>\<open>max()\<close> on it are the accessors of \<^verbatim>\<open>BoundsException\<close>. The converse does not
  hold: a handler declared for the subclass lets a plain \<^verbatim>\<open>BoundsException\<close> pass.
\<close>

theorem BoundsException_handler_takes_subclasses:
  "try_catch
       (ThrowException
          (LowerBound_exception (LowerBoundException T line_info func_info custom_message v mn)))
       catch_BoundsException
     = Handled (LowerBoundException_base (LowerBoundException T line_info func_info custom_message v mn))
   \<and> BoundsException_value
       (LowerBoundException_base (LowerBoundException T line_info func_info custom_message v mn)) = v
   \<and> BoundsException_min
       (LowerBoundException_base (LowerBoundException T line_info func_info custom_message v mn)) = mn
   \<and> BoundsException_max
       (LowerBoundException_base (LowerBoundException T line_info func_info custom_message v mn))
     = limits_max T
   \<and> try_catch
       (ThrowException
          (UpperBound_exception (UpperBoundException T line_info func_info custom_message v mx)))
       catch_BoundsException
     = Handled (UpperBoundException_base (UpperBoundException T line_info func_info custom_message v mx))
   \<and> BoundsException_value
       (UpperBoundException_base (UpperBoundException T line_info func_info custom_message v mx)) = v
   \<and> BoundsException_min
       (UpperBoundException_base (UpperBoundException T line_info func_info custom_message v mx))
     = limits_lowest T
   \<and> BoundsException_max
       (UpperBoundException_base (UpperBoundException T line_info func_info custom_message v mx)) = mx
   \<and> try_catch
       (ThrowException
          (Bounds_exception (BoundsException T line_info func_info custom_message v mn mx)))
       catch_LowerBoundException
     = Propagated (Bounds_exception (BoundsException T line_info func_info custom_message v mn mx))"
  by (simp add: ThrowException_def ctor_defs accessor_defs)

section \<open>SingularMatrixException: the copy of the matrix\<close>

lemma row_major_index_bound:
  fixes i j M N :: nat
  assumes "i < M" and "j < N"
  shows "i * N + j < M * N"
proof -
  have "i * N + j < i * N + N" using assms(2) by simp
  also have "\<dots> = Suc i * N" by simp
  also have "\<dots> \<le> M * N" using assms(1) by (intro mult_le_mono1) simp
  finally show ?thesis .
qed

text \<open>
  Claim C6: for a matrix of \<open>m\<close> rows and \<open>n\<close> columns stored row by row at
  \<open>p\<close>, the constructor copies the \<open>m * n\<close> entries: \<^verbatim>\<open>num_rows()\<close> is \<open>m\<close>,
  \<^verbatim>\<open>num_cols()\<close> is \<open>n\<close>, and \<^verbatim>\<open>matrix()\<close> is the list of the entries in the order
  of the caller's storage, entry \<open>(i, j)\<close> at index \<open>i * n + j\<close>. The object holds
  the entries themselves and no address.
\<close>

theorem SingularMatrixException_copies_matrix:
  assumes "0 \<le> sint m" and "0 \<le> sint n" and "sint m * sint n < 2 ^ 31"
    and "i < nat (sint m)" and "j < nat (sint n)"
  shows "SingularMatrixException_num_rows
       (SingularMatrixException mem line_info func_info custom_message p m n) = m
   \<and> SingularMatrixException_num_cols
       (SingularMatrixException mem line_info func_info custom_message p m n) = n
   \<and> SingularMatrixException_matrix
       (SingularMatrixException mem line_info func_info custom_message p m n)
     = map mem [p ..< p + nat (sint m) * nat (sint n)]
   \<and> length (SingularMatrixException_matrix
       (SingularMatrixException mem line_info func_info custom_message p m n))
     = nat (sint m) * nat (sint n)
   \<and> SingularMatrixException_matrix
       (SingularMatrixException mem line_info func_info custom_message p m n)
       ! (i * nat (sint n) + j)
     = mem (p + (i * nat (sint n) + j))"
proof -
  have count: "nat (sint m * sint n) = nat (sint m) * nat (sint n)"
    using assms(1) by (rule nat_mult_distrib)
  have idx: "i * nat (sint n) + j < nat (sint m) * nat (sint n)"
    using assms(4,5) by (rule row_major_index_bound)
  show ?thesis
    using idx by (simp add: ctor_defs accessor_defs count)
qed

theorem SingularMatrixException_copies_matrix_witness:
  "0 \<le> sint (2 :: c_int) \<and> sint (2 :: c_int) * sint (2 :: c_int) < 2 ^ 31
   \<and> (1 :: nat) < nat (sint (2 :: c_int))
   \<and> SingularMatrixException_num_rows
       (SingularMatrixException (\<lambda>a. of_nat (10 * a)) ''(f.cpp: 1)'' ''g'' ''m'' 3 2 2) = 2
   \<and> SingularMatrixException_num_cols
       (SingularMatrixException (\<lambda>a. of_nat (10 * a)) ''(f.cpp: 1)'' ''g'' ''m'' 3 2 2) = 2
   \<and> length (SingularMatrixException_matrix
       (SingularMatrixException (\<lambda>a. of_nat (10 * a)) ''(f.cpp: 1)'' ''g'' ''m'' 3 2 2)) = 4
   \<and> SingularMatrixException_matrix
       (SingularMatrixException (\<lambda>a. of_nat (10 * a)) ''(f.cpp: 1)'' ''g'' ''m'' 3 2 2) ! 3 = 60"
  using SingularMatrixException_copies_matrix
    [of 2 2 1 1 "\<lambda>a. of_nat (10 * a)" "''(f.cpp: 1)''" "''g''" "''m''" 3]
  by simp

text \<open>The spec's example: a matrix of two rows and two columns.\<close>

lemma SingularMatrixException_two_by_two:
  "SingularMatrixException_matrix
     (SingularMatrixException (\<lambda>a. of_nat (10 * a)) ''(f.cpp: 1)'' ''g'' ''m'' 3 2 2)
     = [30, 40, 50, 60]
   \<and> SingularMatrixException_what
     (SingularMatrixException (\<lambda>a. of_nat (10 * a)) ''(f.cpp: 1)'' ''g'' ''m'' 3 2 2)
     = ''SingularMatrixException: 2 x 2 matrix is singular. m g (f.cpp: 1)''"
  by (simp add: ctor_defs accessor_defs kName_defs append_debug_info_def singular_description_def
      decimal_eval upt_rec [of "numeral k" for k] upt_rec [of "Suc k" for k])

end
